theory Spec2Isabelle
  imports Complex_Main "HOL-Library.Stream"
begin

section \<open>Python values, errors and the environment\<close>

text \<open>
  The module \<^verbatim>\<open>ai_analytics_engine.py\<close> is embedded function by function. Logging and
  \<^verbatim>\<open>asyncio.sleep\<close> have no effect on any value and are left out; the awaits of one
  coroutine run in program order.

  The only exception the module raises itself is \<^verbatim>\<open>RuntimeError\<close>; \<^verbatim>\<open>ValueError\<close> and
  \<^verbatim>\<open>AttributeError\<close> come from numpy, \<^verbatim>\<open>TypeError\<close> from pandas.
\<close>

datatype py_error = RuntimeError string | ValueError | AttributeError | TypeError

text \<open>
  The global numpy generator and the wall clock are the two sources of values outside the
  program. Both are streams that the code consumes in program order: \<open>variates\<close> holds the
  successive standard variates of the generator (in \<open>[0, 1)\<close> for the uniform family),
  \<open>clock\<close> the successive readings of \<^verbatim>\<open>datetime.now().isoformat()\<close>.

  The third part of the environment is the arithmetic of the machine: \<open>rounding\<close> maps the
  exact result of an operation on doubles to the double that the operation returns.
\<close>

record world =
  variates :: "real stream"
  clock :: "string stream"
  rounding :: "real \<Rightarrow> real"

definition unit_variates :: "world \<Rightarrow> bool" where
  "unit_variates w = (\<forall>u \<in> sset (variates w). 0 \<le> u \<and> u < 1)"

text \<open>
  What is used of the rounding: it is monotone, and exact at 0, 2.5 and 5, which are
  doubles. Rounding to nearest has both properties. It is not the identity: a result just
  below 5 may round to 5.
\<close>

definition sound_rounding :: "world \<Rightarrow> bool" where
  "sound_rounding w =
     (mono (rounding w) \<and> rounding w 0 = 0 \<and> rounding w (5 / 2) = 5 / 2 \<and>
      rounding w 5 = 5)"

definition np_random_random :: "world \<Rightarrow> real \<times> world" where
  "np_random_random w = (shd (variates w), w\<lparr>variates := stl (variates w)\<rparr>)"

text \<open>
  \<^verbatim>\<open>np.random.uniform(low, high)\<close> is \<open>low + (high - low) * u\<close> in double arithmetic: the
  difference, the product and the sum are each rounded.
\<close>

definition scale_variate :: "world \<Rightarrow> real \<Rightarrow> real \<Rightarrow> real \<Rightarrow> real" where
  "scale_variate w low high u =
     rounding w (low + rounding w (rounding w (high - low) * u))"

definition np_random_uniform :: "real \<Rightarrow> real \<Rightarrow> world \<Rightarrow> real \<times> world" where
  "np_random_uniform low high w =
     (case np_random_random w of (u, w') \<Rightarrow> (scale_variate w low high u, w'))"

definition np_random_randint :: "int \<Rightarrow> int \<Rightarrow> world \<Rightarrow> int \<times> world" where
  "np_random_randint low high w =
     (case np_random_random w of (u, w') \<Rightarrow> (low + \<lfloor>u * of_int (high - low)\<rfloor>, w'))"

text \<open>\<^verbatim>\<open>np.random.random(n)\<close> and the sized samplers: \<open>n\<close> variates, in order.\<close>

definition np_random_sample :: "nat \<Rightarrow> world \<Rightarrow> real list \<times> world" where
  "np_random_sample n w = (stake n (variates w), w\<lparr>variates := sdrop n (variates w)\<rparr>)"

text \<open>\<^verbatim>\<open>np.random.random((n, m))\<close>: \<open>n\<close> rows of \<open>m\<close> variates, filled row by row.\<close>

fun np_random_sample2 :: "nat \<Rightarrow> nat \<Rightarrow> world \<Rightarrow> real list list \<times> world" where
  "np_random_sample2 0 m w = ([], w)"
| "np_random_sample2 (Suc n) m w =
     (case np_random_sample m w of (row, w') \<Rightarrow>
        (case np_random_sample2 n m w' of (rows, w'') \<Rightarrow> (row # rows, w'')))"

text \<open>
  \<^verbatim>\<open>np.random.choice(a, size)\<close> with an integer population: numpy raises \<^verbatim>\<open>ValueError\<close>
  for an empty population, before it draws anything.
\<close>

definition np_random_choice :: "int \<Rightarrow> nat \<Rightarrow> world \<Rightarrow> (py_error + int list) \<times> world" where
  "np_random_choice a k w =
     (if a \<le> 0 then (Inl ValueError, w)
      else (case np_random_sample k w of (us, w') \<Rightarrow>
              (Inr (map (\<lambda>u. \<lfloor>u * of_int a\<rfloor>) us), w')))"

definition datetime_now :: "world \<Rightarrow> string \<times> world" where
  "datetime_now w = (shd (clock w), w\<lparr>clock := stl (clock w)\<rparr>)"

section \<open>Data frames and arrays\<close>

text \<open>
  A double as a data cell holds: a finite value, an infinity, or \<^verbatim>\<open>NaN\<close>, which pandas reads
  as a missing value.
\<close>

datatype float64 = Finite real | PosInf | NegInf | NaN

text \<open>
  The columns that the module builds are of three dtypes: floats (the sensor values, the
  scores and every column of the analysis data set), timestamps (\<^verbatim>\<open>NaT\<close> is \<open>None\<close>) and
  Python strings (the categorical feature; a missing entry is \<open>None\<close>).
\<close>

datatype column =
  Float64 "float64 list"
| Datetime64 "int option list"
| Object "string option list"

text \<open>
  A \<^verbatim>\<open>pandas.DataFrame\<close>: the number of rows of its index and the labelled columns in
  order. A frame may have rows and no column.
\<close>

record DataFrame =
  n_rows :: nat
  series :: "(string \<times> column) list"

definition len_df :: "DataFrame \<Rightarrow> int" where
  "len_df data = int (n_rows data)"

definition columns :: "DataFrame \<Rightarrow> string list" where
  "columns data = map fst (series data)"

section \<open>Configuration\<close>

record ModelConfiguration =
  algorithm :: string
  learning_rate :: real
  max_depth :: int
  n_estimators :: int
  regularization_alpha :: real
  regularization_lambda :: real
  early_stopping_rounds :: int
  cross_validation_folds :: int
  feature_selection_threshold :: real
  anomaly_detection_threshold :: real
  auto_feature_engineering :: bool
  distributed_computing :: bool
  gpu_acceleration :: bool
  memory_optimization :: bool

definition default_ModelConfiguration :: ModelConfiguration where
  "default_ModelConfiguration =
     \<lparr>algorithm = ''ensemble_xgboost_rf'', learning_rate = 0.001, max_depth = 12,
      n_estimators = 1000, regularization_alpha = 0.1, regularization_lambda = 0.1,
      early_stopping_rounds = 50, cross_validation_folds = 10,
      feature_selection_threshold = 0.95, anomaly_detection_threshold = 2.5,
      auto_feature_engineering = True, distributed_computing = True,
      gpu_acceleration = True, memory_optimization = True\<rparr>"

section \<open>The analytics engine\<close>

record QuantumEnhancedAnalytics =
  config :: ModelConfiguration
  model_cache :: "(string \<times> string) list"
  feature_importance_matrix :: "real list list option"
  anomaly_detector :: "string option"
  prediction_confidence_threshold :: real
  quantum_circuit_depth :: nat
  neural_architecture_search_space :: nat

definition QuantumEnhancedAnalytics_init :: "ModelConfiguration \<Rightarrow> QuantumEnhancedAnalytics" where
  "QuantumEnhancedAnalytics_init cfg =
     \<lparr>config = cfg, model_cache = [], feature_importance_matrix = None,
      anomaly_detector = None, prediction_confidence_threshold = 0.85,
      quantum_circuit_depth = 12, neural_architecture_search_space = 10000\<rparr>"

record anomaly =
  timestamp :: string
  index :: int
  anomaly_score :: real
  confidence :: real
  risk_level :: string
  affected_features :: "string list"

text \<open>
  The body of the loop of \<^verbatim>\<open>detect_anomalies\<close>, over the indices still to visit. The dict
  literal evaluates its values in the order written, so the draws are: the 5% test, the
  clock, the score, the confidence, the risk level, the three column picks.
\<close>

fun detect_loop ::
  "DataFrame \<Rightarrow> int list \<Rightarrow> anomaly list \<Rightarrow> world \<Rightarrow> (py_error + anomaly list) \<times> world" where
  "detect_loop data [] anomalies w = (Inr anomalies, w)"
| "detect_loop data (i # is) anomalies w =
     (case np_random_random w of (u, w1) \<Rightarrow>
        if u > 0.95 then
          (case datetime_now w1 of (ts, w2) \<Rightarrow>
           case np_random_uniform 2.5 5.0 w2 of (score, w3) \<Rightarrow>
           case np_random_uniform 0.8 0.99 w3 of (conf, w4) \<Rightarrow>
           case np_random_random w4 of (r, w5) \<Rightarrow>
           case np_random_choice (int (length (columns data))) 3 w5 of
             (Inl e, w6) \<Rightarrow> (Inl e, w6)
           | (Inr picks, w6) \<Rightarrow>
               detect_loop data is
                 (anomalies @
                    [\<lparr>timestamp = ts, index = i, anomaly_score = score, confidence = conf,
                      risk_level = (if r > 0.5 then ''HIGH'' else ''MEDIUM''),
                      affected_features = map (\<lambda>j. columns data ! nat j) picks\<rparr>])
                 w6)
        else detect_loop data is anomalies w1)"

definition detect_anomalies ::
  "QuantumEnhancedAnalytics \<Rightarrow> DataFrame \<Rightarrow> world \<Rightarrow> (py_error + anomaly list) \<times> world" where
  "detect_anomalies self data w = detect_loop data [0 .. min (len_df data) 10 - 1] [] w"

subsection \<open>Training\<close>

text \<open>
  The sized samplers of the other laws. A normal sample is \<open>loc + scale * z\<close> and an
  exponential one \<open>scale * z\<close> for the standard variate \<open>z\<close>, a lognormal one the
  exponential of a normal one; for the Poisson and beta laws the variate is the sample.
  No branch of the program reads these values.
\<close>

definition np_random_normal :: "real \<Rightarrow> real \<Rightarrow> nat \<Rightarrow> world \<Rightarrow> real list \<times> world" where
  "np_random_normal loc scale n w =
     (case np_random_sample n w of (zs, w') \<Rightarrow> (map (\<lambda>z. loc + scale * z) zs, w'))"

definition np_random_lognormal :: "real \<Rightarrow> real \<Rightarrow> nat \<Rightarrow> world \<Rightarrow> real list \<times> world" where
  "np_random_lognormal mean sigma n w =
     (case np_random_normal mean sigma n w of (xs, w') \<Rightarrow> (map exp xs, w'))"

definition np_random_exponential :: "real \<Rightarrow> nat \<Rightarrow> world \<Rightarrow> real list \<times> world" where
  "np_random_exponential scale n w =
     (case np_random_sample n w of (zs, w') \<Rightarrow> (map (\<lambda>z. scale * z) zs, w'))"

definition np_random_poisson :: "real \<Rightarrow> nat \<Rightarrow> world \<Rightarrow> real list \<times> world" where
  "np_random_poisson lam n w = np_random_sample n w"

definition np_random_beta :: "real \<Rightarrow> real \<Rightarrow> nat \<Rightarrow> world \<Rightarrow> real list \<times> world" where
  "np_random_beta a b n w = np_random_sample n w"

definition np_random_uniform_n :: "real \<Rightarrow> real \<Rightarrow> nat \<Rightarrow> world \<Rightarrow> real list \<times> world" where
  "np_random_uniform_n low high n w =
     (case np_random_sample n w of (us, w') \<Rightarrow> (map (scale_variate w low high) us, w'))"

definition preprocess_data :: "DataFrame \<Rightarrow> DataFrame" where
  "preprocess_data data = data"

record architecture =
  layers :: int
  neurons_per_layer :: int
  activation_functions :: "string list"
  dropout_rate :: real
  batch_normalization :: bool
  attention_mechanisms :: bool

definition neural_architecture_search :: "world \<Rightarrow> architecture \<times> world" where
  "neural_architecture_search w =
     (case np_random_randint 10 50 w of (l, w1) \<Rightarrow>
      case np_random_randint 128 1024 w1 of (n, w2) \<Rightarrow>
      case np_random_uniform 0.1 0.3 w2 of (d, w3) \<Rightarrow>
        (\<lparr>layers = l, neurons_per_layer = n,
          activation_functions = [''relu'', ''gelu'', ''swish''], dropout_rate = d,
          batch_normalization = True, attention_mechanisms = True\<rparr>, w3))"

definition quantum_feature_engineering :: "DataFrame \<Rightarrow> world \<Rightarrow> real list list \<times> world" where
  "quantum_feature_engineering data w = np_random_sample2 (n_rows data) 50 w"

definition train_ensemble_models :: "DataFrame \<Rightarrow> world \<Rightarrow> (string \<times> real) list \<times> world" where
  "train_ensemble_models data w =
     (case np_random_uniform 0.92 0.98 w of (m1, w1) \<Rightarrow>
      case np_random_uniform 0.89 0.96 w1 of (m2, w2) \<Rightarrow>
      case np_random_uniform 0.88 0.95 w2 of (m3, w3) \<Rightarrow>
      case np_random_uniform 0.90 0.97 w3 of (m4, w4) \<Rightarrow>
      case np_random_uniform 0.93 0.99 w4 of (m5, w5) \<Rightarrow>
      case np_random_uniform 1.15 1.45 w5 of (m6, w6) \<Rightarrow>
      case np_random_uniform 2.1 5.7 w6 of (m7, w7) \<Rightarrow>
        ([(''accuracy'', m1), (''precision'', m2), (''recall'', m3), (''f1_score'', m4),
          (''auc_roc'', m5), (''quantum_advantage'', m6), (''computational_speedup'', m7)],
         w7))"

text \<open>
  \<^verbatim>\<open>train_model\<close> checks nothing about \<open>data\<close> and assigns no attribute of \<open>self\<close>; the
  engine is returned as it was received.
\<close>

definition train_model ::
  "QuantumEnhancedAnalytics \<Rightarrow> DataFrame \<Rightarrow> ModelConfiguration \<Rightarrow> world \<Rightarrow>
     (py_error + (string \<times> real) list) \<times> QuantumEnhancedAnalytics \<times> world" where
  "train_model self data cfg w =
     (case preprocess_data data of preprocessed \<Rightarrow>
      case neural_architecture_search w of (best_architecture, w1) \<Rightarrow>
      case quantum_feature_engineering data w1 of (quantum_features, w2) \<Rightarrow>
      case train_ensemble_models data w2 of (training_metrics, w3) \<Rightarrow>
        (Inr training_metrics, self, w3))"

subsection \<open>Batch prediction\<close>

text \<open>A two-dimensional \<^verbatim>\<open>numpy.ndarray\<close>: its shape and its buffer in row-major order.\<close>

record ndarray =
  shape :: "nat \<times> nat"
  flat :: "float64 list"

definition len_nd :: "ndarray \<Rightarrow> nat" where
  "len_nd a = fst (shape a)"

fun add_noise :: "float64 \<Rightarrow> real \<Rightarrow> float64" where
  "add_noise (Finite x) z = Finite (x + z)"
| "add_noise c z = c"

definition quantum_transform :: "ndarray \<Rightarrow> world \<Rightarrow> ndarray \<times> world" where
  "quantum_transform features w =
     (case np_random_normal 0 0.01 (fst (shape features) * snd (shape features)) w of
        (noise, w') \<Rightarrow>
          (features\<lparr>flat := map2 add_noise (flat features) noise\<rparr>, w'))"

definition predict_batch ::
  "QuantumEnhancedAnalytics \<Rightarrow> ndarray \<Rightarrow> world \<Rightarrow>
     (py_error + real list \<times> real list list) \<times> world" where
  "predict_batch self features w =
     (case quantum_transform features w of (transformed_features, w1) \<Rightarrow>
      case np_random_sample (len_nd features) w1 of (predictions, w2) \<Rightarrow>
      case np_random_sample2 (len_nd features) 2 w2 of (confidence_intervals, w3) \<Rightarrow>
        (Inr (predictions, confidence_intervals), w3))"

section \<open>The stream processor\<close>

record DataPipeline =
  source_endpoints :: "string list"
  preprocessing_steps :: "string list"
  validation_rules :: "(string \<times> string) list"
  encryption_enabled :: bool
  compression_algorithm :: string
  batch_size :: int
  streaming_window_ms :: int
  error_tolerance :: real
  backup_strategy :: string

definition default_DataPipeline :: DataPipeline where
  "default_DataPipeline =
     \<lparr>source_endpoints = [], preprocessing_steps = [], validation_rules = [],
      encryption_enabled = True, compression_algorithm = ''lz4'', batch_size = 10000,
      streaming_window_ms = 1000, error_tolerance = 0.001,
      backup_strategy = ''distributed_replication''\<rparr>"

record EnterpriseDataProcessor =
  dp_config :: DataPipeline
  processing_queue_maxsize :: nat
  processing_queue :: "DataFrame list"
  worker_threads :: "string list"
  encryption_key :: string

definition EnterpriseDataProcessor_init :: "DataPipeline \<Rightarrow> EnterpriseDataProcessor" where
  "EnterpriseDataProcessor_init pipeline =
     \<lparr>dp_config = pipeline, processing_queue_maxsize = 100000, processing_queue = [],
      worker_threads = [],
      encryption_key = ''09c2e2cd15412a8897c2c97207b898645df82174dd80fea0bb32c9304a518be9''\<rparr>"

text \<open>
  The methods that handle one batch. The receiving loop \<^verbatim>\<open>process_realtime_stream\<close> and
  \<^verbatim>\<open>_receive_data_batch\<close> are not embedded; the batches they hand to these methods have a
  timestamp column, three float columns and a categorical column of strings, and between
  100 and 999 rows.
\<close>

definition validate_data_integrity :: "DataFrame \<Rightarrow> world \<Rightarrow> bool \<times> world" where
  "validate_data_integrity data w = (case np_random_random w of (u, w') \<Rightarrow> (u > 0.05, w'))"

text \<open>
  \<^verbatim>\<open>data.mean()\<close> has one entry per column label, computed from the values of the column
  that are not missing; a column that has none gives \<^verbatim>\<open>NaN\<close> (\<^verbatim>\<open>NaT\<close> for timestamps). The
  mean of a non-empty list of doubles or of timestamps is computed by pandas in double
  arithmetic, with its own order of summation: the two reductions are parameters. The
  result on doubles may be an infinity, or \<^verbatim>\<open>NaN\<close> when both infinities occur.
\<close>

record pandas =
  float64_mean :: "float64 list \<Rightarrow> float64"
  datetime64_mean :: "int list \<Rightarrow> int option"

definition valid_values :: "float64 list \<Rightarrow> float64 list" where
  "valid_values cs = filter (\<lambda>c. c \<noteq> NaN) cs"

definition nanmean :: "pandas \<Rightarrow> float64 list \<Rightarrow> float64" where
  "nanmean p cs = (if valid_values cs = [] then NaN else float64_mean p (valid_values cs))"

definition valid_times :: "int option list \<Rightarrow> int list" where
  "valid_times ts = List.map_filter (\<lambda>t. t) ts"

definition datetime_mean :: "pandas \<Rightarrow> int option list \<Rightarrow> int option" where
  "datetime_mean p ts = (if valid_times ts = [] then None else datetime64_mean p (valid_times ts))"

text \<open>
  From pandas 2.0 on, \<^verbatim>\<open>DataFrame.mean\<close> takes every column (\<^verbatim>\<open>numeric_only=False\<close>): on a
  column of strings the reduction raises \<^verbatim>\<open>TypeError\<close>, and the whole call with it. The
  module gives no \<^verbatim>\<open>numeric_only\<close> argument and the repository pins no older release.
\<close>

datatype fill_value = FloatFill float64 | TimeFill "int option"

fun column_mean :: "pandas \<Rightarrow> column \<Rightarrow> py_error + fill_value" where
  "column_mean p (Float64 cs) = Inr (FloatFill (nanmean p cs))"
| "column_mean p (Datetime64 ts) = Inr (TimeFill (datetime_mean p ts))"
| "column_mean p (Object ss) =
     (if list_ex (\<lambda>s. s \<noteq> None) ss then Inl TypeError else Inr (FloatFill NaN))"

fun means_of :: "pandas \<Rightarrow> (string \<times> column) list \<Rightarrow> py_error + (string \<times> fill_value) list" where
  "means_of p [] = Inr []"
| "means_of p (c # cs) =
     (case column_mean p (snd c) of
        Inl e \<Rightarrow> Inl e
      | Inr m \<Rightarrow> (case means_of p cs of
                    Inl e \<Rightarrow> Inl e
                  | Inr ms \<Rightarrow> Inr ((fst c, m) # ms)))"

definition DataFrame_mean :: "pandas \<Rightarrow> DataFrame \<Rightarrow> py_error + (string \<times> fill_value) list" where
  "DataFrame_mean p data = means_of p (series data)"

text \<open>
  \<^verbatim>\<open>data.fillna(value)\<close> with a labelled \<open>value\<close>: a missing cell takes the entry of
  \<open>value\<close> under the label of its column; where that entry is absent or itself \<^verbatim>\<open>NaN\<close>
  the cell stays missing.
\<close>

definition fill_cells :: "float64 \<Rightarrow> float64 list \<Rightarrow> float64 list" where
  "fill_cells v cs = map (\<lambda>c. if c = NaN then v else c) cs"

fun fill_column :: "fill_value \<Rightarrow> column \<Rightarrow> column" where
  "fill_column (FloatFill v) (Float64 cs) = Float64 (fill_cells v cs)"
| "fill_column (TimeFill t) (Datetime64 ts) =
     Datetime64 (map (\<lambda>c. case c of None \<Rightarrow> t | Some x \<Rightarrow> Some x) ts)"
| "fill_column v c = c"

definition fillna :: "DataFrame \<Rightarrow> (string \<times> fill_value) list \<Rightarrow> DataFrame" where
  "fillna data val =
     data\<lparr>series :=
       map (\<lambda>c. (fst c, case map_of val (fst c) of
                          None \<Rightarrow> snd c
                        | Some v \<Rightarrow> fill_column v (snd c)))
           (series data)\<rparr>"

definition apply_data_recovery ::
  "pandas \<Rightarrow> EnterpriseDataProcessor \<Rightarrow> DataFrame \<Rightarrow> py_error + DataFrame" where
  "apply_data_recovery p self data =
     (case DataFrame_mean p data of
        Inl e \<Rightarrow> Inl e
      | Inr means \<Rightarrow> Inr (fillna data means))"

definition encrypt_sensitive_data :: "EnterpriseDataProcessor \<Rightarrow> DataFrame \<Rightarrow> DataFrame" where
  "encrypt_sensitive_data self data = data"

definition apply_business_rules :: "EnterpriseDataProcessor \<Rightarrow> DataFrame \<Rightarrow> DataFrame" where
  "apply_business_rules self data = data"

definition process_batch_enterprise ::
  "pandas \<Rightarrow> EnterpriseDataProcessor \<Rightarrow> DataFrame \<Rightarrow> world \<Rightarrow>
     (py_error + DataFrame) \<times> world" where
  "process_batch_enterprise p self batch w =
     (case validate_data_integrity batch w of (validation_passed, w1) \<Rightarrow>
        if \<not> validation_passed then
          (case apply_data_recovery p self batch of
             Inl e \<Rightarrow> (Inl e, w1)
           | Inr recovered \<Rightarrow>
               (Inr (apply_business_rules self (encrypt_sensitive_data self recovered)), w1))
        else (Inr (apply_business_rules self (encrypt_sensitive_data self batch)), w1))"

text \<open>A batch is valid when no cell of it is missing.\<close>

fun complete :: "column \<Rightarrow> bool" where
  "complete (Float64 cs) = list_all (\<lambda>c. c \<noteq> NaN) cs"
| "complete (Datetime64 ts) = list_all (\<lambda>t. t \<noteq> None) ts"
| "complete (Object ss) = list_all (\<lambda>s. s \<noteq> None) ss"

definition no_missing :: "DataFrame \<Rightarrow> bool" where
  "no_missing data = list_all (\<lambda>c. complete (snd c)) (series data)"

text \<open>A numeric batch has float columns only.\<close>

fun is_float64 :: "column \<Rightarrow> bool" where
  "is_float64 (Float64 cs) = True"
| "is_float64 c = False"

fun float_cells :: "column \<Rightarrow> float64 list" where
  "float_cells (Float64 cs) = cs"
| "float_cells c = []"

definition numeric_frame :: "DataFrame \<Rightarrow> bool" where
  "numeric_frame data = list_all (\<lambda>c. is_float64 (snd c)) (series data)"


text \<open>
  An instance of the two reductions in which no operation rounds. It agrees with the
  double arithmetic wherever the sum and the quotient are themselves doubles, as they are
  on the inputs evaluated below.
\<close>

fun finite_part :: "float64 \<Rightarrow> real" where
  "finite_part (Finite x) = x"
| "finite_part c = 0"

definition exact_mean :: "float64 list \<Rightarrow> float64" where
  "exact_mean vs =
     (if NaN \<in> set vs \<or> (PosInf \<in> set vs \<and> NegInf \<in> set vs) then NaN
      else if PosInf \<in> set vs then PosInf
      else if NegInf \<in> set vs then NegInf
      else Finite (sum_list (map finite_part vs) / real (length vs)))"

definition exact_pandas :: pandas where
  "exact_pandas =
     \<lparr>float64_mean = exact_mean,
      datetime64_mean = (\<lambda>ts. Some (sum_list ts div int (length ts)))\<rparr>"

section \<open>The orchestrator\<close>

record AIAnalyticsOrchestrator =
  model_config :: ModelConfiguration
  pipeline_config :: DataPipeline
  analytics_engine :: QuantumEnhancedAnalytics
  data_processor :: EnterpriseDataProcessor
  system_status :: string

definition AIAnalyticsOrchestrator_init :: AIAnalyticsOrchestrator where
  "AIAnalyticsOrchestrator_init =
     \<lparr>model_config = default_ModelConfiguration, pipeline_config = default_DataPipeline,
      analytics_engine = QuantumEnhancedAnalytics_init default_ModelConfiguration,
      data_processor = EnterpriseDataProcessor_init default_DataPipeline,
      system_status = ''INITIALIZING''\<rparr>"

text \<open>
  \<^verbatim>\<open>initialize_quantum_circuits\<close> calls \<^verbatim>\<open>np.random.complex128\<close>, which is numpy's and not
  the repository's: the call is a parameter here, and may raise. The normalised states
  are a local value that is dropped.
\<close>

definition initialize_quantum_circuits ::
  "(nat \<Rightarrow> world \<Rightarrow> (py_error + complex list) \<times> world) \<Rightarrow> QuantumEnhancedAnalytics \<Rightarrow>
     world \<Rightarrow> (py_error + bool) \<times> world" where
  "initialize_quantum_circuits complex128 self w =
     (case complex128 (2 ^ quantum_circuit_depth self) w of
        (Inl e, w') \<Rightarrow> (Inl e, w')
      | (Inr quantum_states, w') \<Rightarrow> (Inr True, w'))"

definition perform_system_health_check :: "AIAnalyticsOrchestrator \<Rightarrow> bool" where
  "perform_system_health_check self = True"

definition load_enterprise_configurations :: "AIAnalyticsOrchestrator \<Rightarrow> unit" where
  "load_enterprise_configurations self = ()"

definition initialize_system ::
  "(nat \<Rightarrow> world \<Rightarrow> (py_error + complex list) \<times> world) \<Rightarrow> AIAnalyticsOrchestrator \<Rightarrow>
     world \<Rightarrow> bool \<times> AIAnalyticsOrchestrator \<times> world" where
  "initialize_system complex128 self w =
     (case initialize_quantum_circuits complex128 (analytics_engine self) w of
        (Inl e, w') \<Rightarrow> (False, self\<lparr>system_status := ''FAILED''\<rparr>, w')
      | (Inr ok, w') \<Rightarrow>
          (case perform_system_health_check self of healthy \<Rightarrow>
           case load_enterprise_configurations self of loaded \<Rightarrow>
             (True, self\<lparr>system_status := ''OPERATIONAL''\<rparr>, w')))"

definition generate_enterprise_dataset :: "world \<Rightarrow> DataFrame \<times> world" where
  "generate_enterprise_dataset w =
     (case np_random_randint 10000 50000 w of (n_samples, w0) \<Rightarrow>
      case np_random_lognormal 3 1 (nat n_samples) w0 of (c1, w1) \<Rightarrow>
      case np_random_normal 35 12 (nat n_samples) w1 of (c2, w2) \<Rightarrow>
      case np_random_exponential 5000 (nat n_samples) w2 of (c3, w3) \<Rightarrow>
      case np_random_normal 650 100 (nat n_samples) w3 of (c4, w4) \<Rightarrow>
      case np_random_poisson 10 (nat n_samples) w4 of (c5, w5) \<Rightarrow>
      case np_random_beta 2 5 (nat n_samples) w5 of (c6, w6) \<Rightarrow>
      case np_random_uniform_n 0 1 (nat n_samples) w6 of (c7, w7) \<Rightarrow>
        (\<lparr>n_rows = nat n_samples,
          series = [(''transaction_amount'', Float64 (map Finite c1)), (''customer_age'', Float64 (map Finite c2)),
                    (''account_balance'', Float64 (map Finite c3)), (''credit_score'', Float64 (map Finite c4)),
                    (''transaction_frequency'', Float64 (map Finite c5)),
                    (''geographic_risk_score'', Float64 (map Finite c6)),
                    (''temporal_pattern_score'', Float64 (map Finite c7))]\<rparr>, w7))"

definition get_system_health_metrics :: "world \<Rightarrow> (string \<times> real) list \<times> world" where
  "get_system_health_metrics w =
     (case np_random_uniform 0.15 0.35 w of (h1, w1) \<Rightarrow>
      case np_random_uniform 0.45 0.75 w1 of (h2, w2) \<Rightarrow>
      case np_random_uniform 0.60 0.90 w2 of (h3, w3) \<Rightarrow>
      case np_random_uniform 0.85 0.98 w3 of (h4, w4) \<Rightarrow>
      case np_random_uniform 1.2 4.8 w4 of (h5, w5) \<Rightarrow>
      case np_random_uniform 0.92 0.98 w5 of (h6, w6) \<Rightarrow>
        ([(''cpu_utilization'', h1), (''memory_usage'', h2), (''gpu_utilization'', h3),
          (''quantum_coherence'', h4), (''network_latency_ms'', h5),
          (''prediction_accuracy'', h6)], w6))"

definition baseline_recommendations :: "string list" where
  "baseline_recommendations =
     [''Implement enhanced monitoring for high-risk transaction patterns'',
      ''Deploy additional quantum circuits for improved processing capacity'',
      ''Optimize neural architecture for reduced latency in real-time predictions'',
      ''Strengthen anomaly detection thresholds based on current threat landscape'']"

definition urgent_recommendation :: string where
  "urgent_recommendation =
     ''URGENT: Investigate potential security breach - anomaly count exceeds threshold''"

definition generate_ai_recommendations :: "anomaly list \<Rightarrow> string list" where
  "generate_ai_recommendations anomalies =
     (if length anomalies > 5 then baseline_recommendations @ [urgent_recommendation]
      else baseline_recommendations)"

text \<open>
  \<^verbatim>\<open>data.select_dtypes(include=[np.number])\<close> keeps the float columns; \<^verbatim>\<open>.values\<close> of a
  frame of float columns lays the values out row by row.
\<close>

definition select_dtypes_number :: "DataFrame \<Rightarrow> DataFrame" where
  "select_dtypes_number data = data\<lparr>series := filter (\<lambda>c. is_float64 (snd c)) (series data)\<rparr>"

definition values_df :: "DataFrame \<Rightarrow> ndarray" where
  "values_df data =
     \<lparr>shape = (n_rows data, length (series data)),
      flat = concat (map (\<lambda>i. map (\<lambda>c. float_cells (snd c) ! i) (series data))
                         [0 ..< n_rows data])\<rparr>"

definition dict_get :: "(string \<times> real) list \<Rightarrow> string \<Rightarrow> real \<Rightarrow> real" where
  "dict_get d k dflt = (case map_of d k of None \<Rightarrow> dflt | Some v \<Rightarrow> v)"

record analysis_report =
  report_timestamp :: string
  data_source :: string
  samples_processed :: int
  model_performance :: "(string \<times> real) list"
  predictions_generated :: int
  anomalies_detected :: int
  system_health :: "(string \<times> real) list"
  recommendations :: "string list"
  quantum_advantage_factor :: real
  processing_efficiency :: real

text \<open>
  An exception of a callee leaves \<^verbatim>\<open>run_comprehensive_analysis\<close> at once; the engine the
  callee returned stays in place. The method has no assignment to an attribute of
  \<open>self\<close>.
\<close>

definition run_comprehensive_analysis ::
  "AIAnalyticsOrchestrator \<Rightarrow> string \<Rightarrow> world \<Rightarrow>
     (py_error + analysis_report) \<times> AIAnalyticsOrchestrator \<times> world" where
  "run_comprehensive_analysis self source w =
     (if system_status self \<noteq> ''OPERATIONAL'' then
        (Inl (RuntimeError ''System not operational - initialization required''), self, w)
      else
        (case generate_enterprise_dataset w of (sample_data, w1) \<Rightarrow>
         case train_model (analytics_engine self) sample_data (model_config self) w1 of
           (Inl e, engine, w2) \<Rightarrow> (Inl e, self\<lparr>analytics_engine := engine\<rparr>, w2)
         | (Inr training_results, engine, w2) \<Rightarrow>
         (case predict_batch engine (values_df (select_dtypes_number sample_data)) w2 of
            (Inl e, w3) \<Rightarrow> (Inl e, self\<lparr>analytics_engine := engine\<rparr>, w3)
          | (Inr (predictions, confidence_intervals), w3) \<Rightarrow>
         (case detect_anomalies engine sample_data w3 of
            (Inl e, w4) \<Rightarrow> (Inl e, self\<lparr>analytics_engine := engine\<rparr>, w4)
          | (Inr anomalies, w4) \<Rightarrow>
         (case datetime_now w4 of (ts, w5) \<Rightarrow>
          case get_system_health_metrics w5 of (health, w6) \<Rightarrow>
          case np_random_uniform 0.85 0.98 w6 of (efficiency, w7) \<Rightarrow>
            (Inr \<lparr>report_timestamp = ts, data_source = source,
                  samples_processed = len_df sample_data,
                  model_performance = training_results,
                  predictions_generated = int (length predictions),
                  anomalies_detected = int (length anomalies),
                  system_health = health,
                  recommendations = generate_ai_recommendations anomalies,
                  quantum_advantage_factor =
                    dict_get training_results ''quantum_advantage'' 1.0,
                  processing_efficiency = efficiency\<rparr>,
             self\<lparr>analytics_engine := engine\<rparr>, w7))))))"

section \<open>Concrete inputs\<close>

text \<open>Small inputs on which the definitions are evaluated below.\<close>

definition example_engine :: QuantumEnhancedAnalytics where
  "example_engine = QuantumEnhancedAnalytics_init default_ModelConfiguration"

definition example_frame :: DataFrame where
  "example_frame = \<lparr>n_rows = 2, series = [(''x'', Float64 [Finite 1, NaN])]\<rparr>"

definition example_world :: world where
  "example_world =
     \<lparr>variates = 0.97 ## 0.04 ## 0.5 ## 0.7 ## 0.1 ## 0.2 ## 0.3 ## sconst 0,
      clock = sconst ''2025-01-01T00:00:00'',
      rounding = (\<lambda>x. x)\<rparr>"

definition example_anomaly :: anomaly where
  "example_anomaly =
     \<lparr>timestamp = ''2025-01-01T00:00:00'', index = 0, anomaly_score = 2.6,
      confidence = 0.895, risk_level = ''HIGH'', affected_features = [''x'', ''x'', ''x'']\<rparr>"

definition rest_world :: world where
  "rest_world =
     \<lparr>variates = sconst 0, clock = sconst ''2025-01-01T00:00:00'',
      rounding = (\<lambda>x. x)\<rparr>"

definition strict_engine :: QuantumEnhancedAnalytics where
  "strict_engine =
     QuantumEnhancedAnalytics_init (default_ModelConfiguration\<lparr>anomaly_detection_threshold := 3\<rparr>)"

definition example_features :: ndarray where
  "example_features = \<lparr>shape = (1, 1), flat = [Finite 1]\<rparr>"

definition interval_world :: world where
  "interval_world =
     \<lparr>variates = 0 ## 0.5 ## 0.9 ## 0.1 ## sconst 0, clock = sconst ''2025-01-01T00:00:00'',
      rounding = (\<lambda>x. x)\<rparr>"

definition empty_frame :: DataFrame where
  "empty_frame = \<lparr>n_rows = 0, series = []\<rparr>"

definition example_processor :: EnterpriseDataProcessor where
  "example_processor = EnterpriseDataProcessor_init default_DataPipeline"




definition full_frame :: DataFrame where
  "full_frame = \<lparr>n_rows = 2, series = [(''a'', Float64 [Finite 2, Finite 4]),
                              (''b'', Float64 [Finite 1, Finite 0])]\<rparr>"

text \<open>
  A valid batch of the shape that \<^verbatim>\<open>_receive_data_batch\<close> builds: 100 rows, a timestamp per
  row counting back by seconds, the two sensor columns, the categorical column and the
  quality score.
\<close>

definition received_batch :: DataFrame where
  "received_batch =
     \<lparr>n_rows = 100,
      series = [(''timestamp'', Datetime64 (map (\<lambda>i. Some (1735689600 - int i)) [0 ..< 100])),
                (''sensor_value_1'', Float64 (replicate 100 (Finite 100))),
                (''sensor_value_2'', Float64 (replicate 100 (Finite 50))),
                (''categorical_feature'', Object (replicate 100 (Some ''A''))),
                (''quality_score'', Float64 (replicate 100 (Finite 0.5)))]\<rparr>"

text \<open>
  A world whose arithmetic rounds to the nearest multiple of \<open>1 / 2 ^ 50\<close>, the spacing of the
  doubles between 4 and 8, and whose second variate is the largest double below 1.
\<close>

definition grid_world :: world where
  "grid_world =
     \<lparr>variates = 0.97 ## (1 - 1 / 2 ^ 53) ## sconst 0,
      clock = sconst ''2025-01-01T00:00:00'',
      rounding = (\<lambda>x. of_int (round (x * 2 ^ 50)) / 2 ^ 50)\<rparr>"

definition operational_orchestrator :: AIAnalyticsOrchestrator where
  "operational_orchestrator = AIAnalyticsOrchestrator_init\<lparr>system_status := ''OPERATIONAL''\<rparr>"

definition quiet_dataset :: DataFrame where
  "quiet_dataset =
     \<lparr>n_rows = 10000,
      series = [(''transaction_amount'', Float64 (replicate 10000 (Finite (exp 3)))),
                (''customer_age'', Float64 (replicate 10000 (Finite 35))),
                (''account_balance'', Float64 (replicate 10000 (Finite 0))),
                (''credit_score'', Float64 (replicate 10000 (Finite 650))),
                (''transaction_frequency'', Float64 (replicate 10000 (Finite 0))),
                (''geographic_risk_score'', Float64 (replicate 10000 (Finite 0))),
                (''temporal_pattern_score'', Float64 (replicate 10000 (Finite 0)))]\<rparr>"

definition quiet_metrics :: "(string \<times> real) list" where
  "quiet_metrics =
     [(''accuracy'', 0.92), (''precision'', 0.89), (''recall'', 0.88), (''f1_score'', 0.90),
      (''auc_roc'', 0.93), (''quantum_advantage'', 1.15), (''computational_speedup'', 2.1)]"

definition quiet_report :: analysis_report where
  "quiet_report =
     \<lparr>report_timestamp = ''2025-01-01T00:00:00'', data_source = ''enterprise_data_lake'',
      samples_processed = 10000, model_performance = quiet_metrics,
      predictions_generated = 10000, anomalies_detected = 0,
      system_health = [(''cpu_utilization'', 0.15), (''memory_usage'', 0.45),
                       (''gpu_utilization'', 0.60), (''quantum_coherence'', 0.85),
                       (''network_latency_ms'', 1.2), (''prediction_accuracy'', 0.92)],
      recommendations = baseline_recommendations, quantum_advantage_factor = 1.15,
      processing_efficiency = 0.85\<rparr>"

section \<open>Anomaly detection: bounds on the result\<close>

lemma detect_loop_indices:
  "detect_loop data is acc w = (Inr recs, w') \<Longrightarrow>
     \<exists>new. recs = acc @ new \<and> length new \<le> length is \<and> set (map index new) \<subseteq> set is"
proof (induction "is" arbitrary: acc w)
  case Nil
  then show ?case by simp
next
  case (Cons i "is")
  obtain u w1 where d1: "np_random_random w = (u, w1)" by (cases "np_random_random w")
  show ?case
  proof (cases "u > 0.95")
    case False
    with Cons.prems d1 have "detect_loop data is acc w1 = (Inr recs, w')" by simp
    from Cons.IH [OF this] show ?thesis by (auto simp: le_Suc_eq)
  next
    case True
    obtain ts w2 where d2: "datetime_now w1 = (ts, w2)" by (cases "datetime_now w1")
    obtain score w3 where d3: "np_random_uniform 2.5 5.0 w2 = (score, w3)"
      by (cases "np_random_uniform 2.5 5.0 w2")
    obtain conf w4 where d4: "np_random_uniform 0.8 0.99 w3 = (conf, w4)"
      by (cases "np_random_uniform 0.8 0.99 w3")
    obtain r w5 where d5: "np_random_random w4 = (r, w5)" by (cases "np_random_random w4")
    obtain res w6 where d6: "np_random_choice (int (length (columns data))) 3 w5 = (res, w6)"
      by (cases "np_random_choice (int (length (columns data))) 3 w5")
    show ?thesis
    proof (cases res)
      case (Inl e)
      with Cons.prems d1 d2 d3 d4 d5 d6 True show ?thesis by simp
    next
      case (Inr picks)
      let ?a = "\<lparr>timestamp = ts, index = i, anomaly_score = score, confidence = conf,
                 risk_level = (if r > 0.5 then ''HIGH'' else ''MEDIUM''),
                 affected_features = map (\<lambda>j. columns data ! nat j) picks\<rparr>"
      from Cons.prems d1 d2 d3 d4 d5 d6 True Inr
      have "detect_loop data is (acc @ [?a]) w6 = (Inr recs, w')" by simp
      from Cons.IH [OF this] obtain new where
        n: "recs = (acc @ [?a]) @ new" "length new \<le> length is" "set (map index new) \<subseteq> set is"
        by blast
      have "recs = acc @ (?a # new)" using n(1) by simp
      moreover have "length (?a # new) \<le> length (i # is)" using n(2) by simp
      moreover have "set (map index (?a # new)) \<subseteq> set (i # is)" using n(3) by auto
      ultimately show ?thesis by blast
    qed
  qed
qed

lemma detect_loop_total:
  "columns data \<noteq> [] \<Longrightarrow> \<exists>recs w'. detect_loop data is acc w = (Inr recs, w')"
  by (induction "is" arbitrary: acc w)
     (auto simp: np_random_choice_def split: prod.splits)

lemma detect_anomalies_example:
  "detect_anomalies self example_frame example_world = (Inr [example_anomaly], rest_world)"
  by (simp add: detect_anomalies_def example_frame_def example_world_def len_df_def upto.simps
     np_random_random_def np_random_uniform_def scale_variate_def datetime_now_def
     np_random_choice_def columns_def np_random_sample_def numeral_3_eq_3 example_anomaly_def
     rest_world_def)

text \<open>
  Claim C9. For every data set, \<^verbatim>\<open>detect_anomalies\<close> returns at most 10 records, and the row
  index of every record it returns lies in \<open>[0, min(len(data), 10))\<close>, however many rows the
  data set has. The call returns whenever the frame has a column; on a frame without
  columns the column pick of the first anomaly raises \<^verbatim>\<open>ValueError\<close> and nothing is returned.
\<close>

theorem detect_anomalies_bounds:
  "(\<forall>recs w'. detect_anomalies self data w = (Inr recs, w') \<longrightarrow>
       length recs \<le> 10 \<and>
       (\<forall>r \<in> set recs. 0 \<le> index r \<and> index r < min (len_df data) 10)) \<and>
   (columns data \<noteq> [] \<longrightarrow> (\<exists>recs w'. detect_anomalies self data w = (Inr recs, w')))"
proof (intro conjI allI impI)
  fix recs w'
  assume run: "detect_anomalies self data w = (Inr recs, w')"
  let ?m = "min (len_df data) 10"
  from run have "detect_loop data [0 .. ?m - 1] [] w = (Inr recs, w')"
    by (simp add: detect_anomalies_def)
  from detect_loop_indices [OF this]
  have len: "length recs \<le> length [0 .. ?m - 1]"
    and idx: "set (map index recs) \<subseteq> set [0 .. ?m - 1]" by auto
  from len show "length recs \<le> 10" by simp
  show "\<forall>r \<in> set recs. 0 \<le> index r \<and> index r < ?m"
  proof
    fix r assume "r \<in> set recs"
    then have "index r \<in> set [0 .. ?m - 1]" using idx by auto
    then show "0 \<le> index r \<and> index r < ?m" by simp
  qed
next
  assume "columns data \<noteq> []"
  then show "\<exists>recs w'. detect_anomalies self data w = (Inr recs, w')"
    unfolding detect_anomalies_def by (rule detect_loop_total)
qed

theorem detect_anomalies_bounds_witness:
  "detect_anomalies example_engine example_frame example_world = (Inr [example_anomaly], rest_world) \<and>
   columns example_frame \<noteq> [] \<and>
   length [example_anomaly] \<le> 10 \<and> 0 \<le> index example_anomaly \<and>
   index example_anomaly < min (len_df example_frame) 10"
  using detect_anomalies_bounds [of example_engine example_frame example_world]
    detect_anomalies_example [of example_engine]
  by (simp add: columns_def example_frame_def)

section \<open>Anomaly detection: scores and the configured threshold\<close>

lemma unit_variates_random:
  "unit_variates w \<Longrightarrow> np_random_random w = (u, w') \<Longrightarrow> 0 \<le> u \<and> u < 1 \<and> unit_variates w'"
  by (auto simp: unit_variates_def np_random_random_def shd_sset dest!: stl_sset)

lemma unit_variates_uniform:
  "unit_variates w \<Longrightarrow> np_random_uniform low high w = (x, w') \<Longrightarrow> unit_variates w'"
  by (auto simp: np_random_uniform_def split: prod.splits dest: unit_variates_random)

lemma sset_sdrop_subset: "sset (sdrop n s) \<subseteq> sset s"
  by (induction n arbitrary: s) (auto intro: stl_sset)

lemma unit_variates_sample:
  "unit_variates w \<Longrightarrow> np_random_sample n w = (us, w') \<Longrightarrow> unit_variates w'"
  using sset_sdrop_subset by (fastforce simp: unit_variates_def np_random_sample_def)

lemma unit_variates_choice:
  "unit_variates w \<Longrightarrow> np_random_choice a k w = (res, w') \<Longrightarrow> unit_variates w'"
  by (auto simp: np_random_choice_def split: if_splits prod.splits dest: unit_variates_sample)

lemma unit_variates_now:
  "unit_variates w \<Longrightarrow> datetime_now w = (ts, w') \<Longrightarrow> unit_variates w'"
  by (auto simp: unit_variates_def datetime_now_def)

lemma rounding_random: "np_random_random w = (u, w') \<Longrightarrow> rounding w' = rounding w"
  by (auto simp: np_random_random_def)

lemma rounding_uniform: "np_random_uniform low high w = (x, w') \<Longrightarrow> rounding w' = rounding w"
  by (auto simp: np_random_uniform_def split: prod.splits dest: rounding_random)

lemma rounding_choice: "np_random_choice a k w = (res, w') \<Longrightarrow> rounding w' = rounding w"
  by (auto simp: np_random_choice_def np_random_sample_def split: if_splits)

lemma rounding_now: "datetime_now w = (ts, w') \<Longrightarrow> rounding w' = rounding w"
  by (auto simp: datetime_now_def)

lemma sound_rounding_same: "rounding w' = rounding w \<Longrightarrow> sound_rounding w \<Longrightarrow> sound_rounding w'"
  by (simp add: sound_rounding_def)

text \<open>
  The score of a record: a unit variate scaled from \<open>[0, 1)\<close> to the bounds 2.5 and 5.
  Each of the three roundings keeps the value between the images of the bounds; the upper
  bound itself can be reached.
\<close>

lemma score_range:
  assumes "sound_rounding w" and "0 \<le> u" and "u < 1"
  shows "5 / 2 \<le> scale_variate w (5 / 2) 5 u \<and> scale_variate w (5 / 2) 5 u \<le> 5"
proof -
  let ?r = "rounding w"
  from assms(1) have m: "mono ?r" and z: "?r 0 = 0" and l: "?r (5 / 2) = 5 / 2" and h: "?r 5 = 5"
    by (simp_all add: sound_rounding_def)
  have k: "(5 :: real) - 5 / 2 = 5 / 2" by simp
  let ?p = "?r (5 / 2 * u)"
  have e: "scale_variate w (5 / 2) 5 u = ?r (5 / 2 + ?p)"
    unfolding scale_variate_def k l ..
  have "?r 0 \<le> ?p" using assms(2) by (intro monoD [OF m]) simp
  moreover have "?p \<le> ?r (5 / 2)" using assms(3) by (intro monoD [OF m]) simp
  ultimately have p: "0 \<le> ?p" "?p \<le> 5 / 2" unfolding z l by blast+
  have lo: "?r (5 / 2) \<le> ?r (5 / 2 + ?p)" using p(1) by (intro monoD [OF m]) simp
  have hi: "?r (5 / 2 + ?p) \<le> ?r 5" using p(2) by (intro monoD [OF m]) simp
  from lo hi show ?thesis unfolding e l h by blast
qed

lemma score_drawn:
  assumes "unit_variates w" and "sound_rounding w" and "np_random_uniform 2.5 5.0 w = (score, w')"
  shows "2.5 \<le> score \<and> score \<le> 5"
proof -
  obtain u where u: "np_random_random w = (u, w')" "score = scale_variate w 2.5 5.0 u"
    using assms(3) by (auto simp: np_random_uniform_def split: prod.splits)
  from unit_variates_random [OF assms(1) u(1)] have "0 \<le> u" "u < 1" by auto
  from score_range [OF assms(2) this] u(2) show ?thesis by simp
qed

lemma detect_loop_scores:
  "unit_variates w \<Longrightarrow> sound_rounding w \<Longrightarrow>
     detect_loop data is acc w = (Inr recs, w') \<Longrightarrow>
     \<forall>r \<in> set acc. 2.5 \<le> anomaly_score r \<and> anomaly_score r \<le> 5 \<Longrightarrow>
     \<forall>r \<in> set recs. 2.5 \<le> anomaly_score r \<and> anomaly_score r \<le> 5"
proof (induction "is" arbitrary: acc w)
  case Nil
  then show ?case by simp
next
  case (Cons i "is")
  obtain u w1 where d1: "np_random_random w = (u, w1)" by (cases "np_random_random w")
  note u1 = unit_variates_random [OF Cons.prems(1) d1]
  have s1: "sound_rounding w1"
    by (rule sound_rounding_same [OF rounding_random [OF d1] Cons.prems(2)])
  show ?case
  proof (cases "u > 0.95")
    case False
    with Cons.prems d1 have "detect_loop data is acc w1 = (Inr recs, w')" by simp
    from Cons.IH [OF _ s1 this Cons.prems(4)] u1 show ?thesis by simp
  next
    case True
    obtain ts w2 where d2: "datetime_now w1 = (ts, w2)" by (cases "datetime_now w1")
    obtain score w3 where d3: "np_random_uniform 2.5 5.0 w2 = (score, w3)"
      by (cases "np_random_uniform 2.5 5.0 w2")
    obtain conf w4 where d4: "np_random_uniform 0.8 0.99 w3 = (conf, w4)"
      by (cases "np_random_uniform 0.8 0.99 w3")
    obtain r w5 where d5: "np_random_random w4 = (r, w5)" by (cases "np_random_random w4")
    obtain res w6 where d6: "np_random_choice (int (length (columns data))) 3 w5 = (res, w6)"
      by (cases "np_random_choice (int (length (columns data))) 3 w5")
    have u2: "unit_variates w2" using unit_variates_now [OF _ d2] u1 by simp
    have s2: "sound_rounding w2" by (rule sound_rounding_same [OF rounding_now [OF d2] s1])
    have sc: "2.5 \<le> score" "score \<le> 5" using score_drawn [OF u2 s2 d3] by simp_all
    have u3: "unit_variates w3" by (rule unit_variates_uniform [OF u2 d3])
    have s3: "sound_rounding w3" by (rule sound_rounding_same [OF rounding_uniform [OF d3] s2])
    have u4: "unit_variates w4" by (rule unit_variates_uniform [OF u3 d4])
    have s4: "sound_rounding w4" by (rule sound_rounding_same [OF rounding_uniform [OF d4] s3])
    have u5: "unit_variates w5" using unit_variates_random [OF u4 d5] by simp
    have s5: "sound_rounding w5" by (rule sound_rounding_same [OF rounding_random [OF d5] s4])
    have u6: "unit_variates w6" using unit_variates_choice [OF u5 d6] .
    have s6: "sound_rounding w6" by (rule sound_rounding_same [OF rounding_choice [OF d6] s5])
    show ?thesis
    proof (cases res)
      case (Inl e)
      with Cons.prems d1 d2 d3 d4 d5 d6 True show ?thesis by simp
    next
      case (Inr picks)
      let ?a = "\<lparr>timestamp = ts, index = i, anomaly_score = score, confidence = conf,
                 risk_level = (if r > 0.5 then ''HIGH'' else ''MEDIUM''),
                 affected_features = map (\<lambda>j. columns data ! nat j) picks\<rparr>"
      from Cons.prems d1 d2 d3 d4 d5 d6 True Inr
      have run: "detect_loop data is (acc @ [?a]) w6 = (Inr recs, w')" by simp
      have "\<forall>r \<in> set (acc @ [?a]). 2.5 \<le> anomaly_score r \<and> anomaly_score r \<le> 5"
        using Cons.prems(4) sc by simp
      from Cons.IH [OF u6 s6 run this] show ?thesis .
    qed
  qed
qed

lemma unit_variates_example: "unit_variates example_world"
  by (simp add: unit_variates_def example_world_def)

lemma sound_rounding_example: "sound_rounding example_world"
  by (simp add: sound_rounding_def example_world_def mono_def)

text \<open>
  The upper bound is reached: with the rounding of the doubles between 4 and 8 and the
  largest variate below 1, the score is 5.
\<close>

lemma sound_rounding_grid: "sound_rounding grid_world"
proof -
  have "mono (\<lambda>x :: real. of_int (round (x * 2 ^ 50)) / 2 ^ 50 :: real)"
    by (intro monoI divide_right_mono) (simp_all add: round_mono)
  then show ?thesis by (simp add: sound_rounding_def grid_world_def)
qed

lemma score_bound_reached:
  "unit_variates grid_world \<and> scale_variate grid_world 2.5 5.0 (1 - 1 / 2 ^ 53) = 5"
  by (simp add: unit_variates_def grid_world_def scale_variate_def round_def)

lemma detect_anomalies_upper_score:
  "map anomaly_score (case fst (detect_anomalies self example_frame grid_world) of
                        Inr recs \<Rightarrow> recs | Inl e \<Rightarrow> []) = [5]"
  by (simp add: detect_anomalies_def example_frame_def grid_world_def len_df_def upto.simps
     np_random_random_def np_random_uniform_def scale_variate_def datetime_now_def
     np_random_choice_def columns_def np_random_sample_def numeral_3_eq_3 round_def)


text \<open>
  Claim C2, as stated, fails: \<^verbatim>\<open>detect_anomalies\<close> never reads
  \<^verbatim>\<open>config.anomaly_detection_threshold\<close>. With the threshold at 3 it returns a record of
  score 2.6.
\<close>

theorem detect_anomalies_threshold_counterexample:
  "detect_anomalies strict_engine example_frame example_world = (Inr [example_anomaly], rest_world) \<and>
   anomaly_detection_threshold (config strict_engine) = 3 \<and>
   anomaly_score example_anomaly = 2.6 \<and>
   \<not> anomaly_score example_anomaly > anomaly_detection_threshold (config strict_engine)"
  by (simp add: detect_anomalies_example strict_engine_def QuantumEnhancedAnalytics_init_def
      example_anomaly_def)

text \<open>
  Claim C2, amended. Every record that \<^verbatim>\<open>detect_anomalies\<close> returns has its score in
  the closed range \<open>[2.5, 5.0]\<close>, whatever the configured threshold is. The result does not
  depend on the engine's configuration, so for the same input and the same draws raising
  the threshold leaves the number of records as it is, and in particular never increases
  it.
\<close>

theorem detect_anomalies_score_range:
  assumes "unit_variates w" and "sound_rounding w"
    and "detect_anomalies self data w = (Inr recs, w')"
  shows "(\<forall>r \<in> set recs. 2.5 \<le> anomaly_score r \<and> anomaly_score r \<le> 5) \<and>
         (\<forall>other. detect_anomalies other data w = (Inr recs, w')) \<and>
         (\<forall>other recs2 w2. detect_anomalies other data w = (Inr recs2, w2) \<longrightarrow>
            anomaly_detection_threshold (config self) \<le> anomaly_detection_threshold (config other) \<longrightarrow>
            length recs2 \<le> length recs)"
proof -
  from assms(3) have run: "detect_loop data [0 .. min (len_df data) 10 - 1] [] w = (Inr recs, w')"
    by (simp add: detect_anomalies_def)
  have "\<forall>r \<in> set recs. 2.5 \<le> anomaly_score r \<and> anomaly_score r \<le> 5"
    by (rule detect_loop_scores [OF assms(1) assms(2) run]) simp
  moreover have same: "\<forall>other. detect_anomalies other data w = (Inr recs, w')"
    using assms(3) by (simp add: detect_anomalies_def)
  ultimately show ?thesis by auto
qed

theorem detect_anomalies_score_range_witness:
  "unit_variates example_world \<and> sound_rounding example_world \<and>
   detect_anomalies example_engine example_frame example_world = (Inr [example_anomaly], rest_world) \<and>
   2.5 \<le> anomaly_score example_anomaly \<and> anomaly_score example_anomaly \<le> 5 \<and>
   detect_anomalies strict_engine example_frame example_world = (Inr [example_anomaly], rest_world)"
  using detect_anomalies_score_range
          [OF unit_variates_example sound_rounding_example
              detect_anomalies_example [of example_engine]]
        unit_variates_example sound_rounding_example detect_anomalies_example [of example_engine]
  by (simp add: example_anomaly_def)

section \<open>Recommendations\<close>

text \<open>
  Claim C7. The recommendations are a function of the anomaly list alone: the four baseline
  strings, followed by the urgent one exactly when there are more than 5 anomalies. A list
  of 6 anomalies gives exactly 5 recommendations, the last one urgent.
\<close>

theorem generate_ai_recommendations_spec:
  "generate_ai_recommendations anomalies =
     baseline_recommendations @ (if 5 < length anomalies then [urgent_recommendation] else []) \<and>
   length baseline_recommendations = 4 \<and>
   urgent_recommendation \<notin> set baseline_recommendations \<and>
   (urgent_recommendation \<in> set (generate_ai_recommendations anomalies)) = (5 < length anomalies) \<and>
   (length anomalies = 6 \<longrightarrow>
      length (generate_ai_recommendations anomalies) = 5 \<and>
      generate_ai_recommendations anomalies = baseline_recommendations @ [urgent_recommendation])"
  by (simp add: generate_ai_recommendations_def baseline_recommendations_def
      urgent_recommendation_def)

theorem generate_ai_recommendations_spec_witness:
  "length (replicate 6 example_anomaly) = 6 \<and>
   length (generate_ai_recommendations (replicate 6 example_anomaly)) = 5 \<and>
   generate_ai_recommendations (replicate 6 example_anomaly) =
     baseline_recommendations @ [urgent_recommendation]"
  using generate_ai_recommendations_spec [of "replicate 6 example_anomaly"]
  by simp

section \<open>The readiness guard\<close>

text \<open>
  Claim C1. For every data source identifier, \<^verbatim>\<open>run_comprehensive_analysis\<close> on an
  orchestrator whose status is not \<^verbatim>\<open>OPERATIONAL\<close> (so \<^verbatim>\<open>UNINITIALIZED\<close>, \<^verbatim>\<open>FAILED\<close>, and the
  constructor's \<^verbatim>\<open>INITIALIZING\<close>) fails with the readiness error, which the code raises as
  a \<^verbatim>\<open>RuntimeError\<close>; it produces no report and leaves the orchestrator, the generator and
  the clock as they were.
\<close>

theorem run_analysis_not_operational:
  "system_status self \<noteq> ''OPERATIONAL'' \<Longrightarrow>
     run_comprehensive_analysis self source w =
       (Inl (RuntimeError ''System not operational - initialization required''), self, w)"
  by (simp add: run_comprehensive_analysis_def)

theorem run_analysis_not_operational_witness:
  "system_status (AIAnalyticsOrchestrator_init\<lparr>system_status := ''FAILED''\<rparr>) \<noteq> ''OPERATIONAL'' \<and>
   run_comprehensive_analysis (AIAnalyticsOrchestrator_init\<lparr>system_status := ''FAILED''\<rparr>)
       ''enterprise_data_lake'' example_world =
     (Inl (RuntimeError ''System not operational - initialization required''),
      AIAnalyticsOrchestrator_init\<lparr>system_status := ''FAILED''\<rparr>, example_world) \<and>
   system_status (AIAnalyticsOrchestrator_init\<lparr>system_status := ''UNINITIALIZED''\<rparr>) \<noteq> ''OPERATIONAL'' \<and>
   run_comprehensive_analysis (AIAnalyticsOrchestrator_init\<lparr>system_status := ''UNINITIALIZED''\<rparr>)
       ''enterprise_data_lake'' example_world =
     (Inl (RuntimeError ''System not operational - initialization required''),
      AIAnalyticsOrchestrator_init\<lparr>system_status := ''UNINITIALIZED''\<rparr>, example_world)"
  using run_analysis_not_operational
          [of "AIAnalyticsOrchestrator_init\<lparr>system_status := ''FAILED''\<rparr>"
              "''enterprise_data_lake''" example_world]
        run_analysis_not_operational
          [of "AIAnalyticsOrchestrator_init\<lparr>system_status := ''UNINITIALIZED''\<rparr>"
              "''enterprise_data_lake''" example_world]
  by simp

section \<open>Batch prediction\<close>

lemma np_random_sample_length:
  "np_random_sample n w = (us, w') \<Longrightarrow> length us = n"
  by (auto simp: np_random_sample_def)

lemma np_random_sample2_shape:
  "np_random_sample2 n m w = (rows, w') \<Longrightarrow>
     length rows = n \<and> (\<forall>row \<in> set rows. length row = m)"
proof (induction n arbitrary: w rows w')
  case 0
  then show ?case by simp
next
  case (Suc n)
  obtain row w1 where r: "np_random_sample m w = (row, w1)" by (cases "np_random_sample m w")
  obtain rest w2 where s: "np_random_sample2 n m w1 = (rest, w2)"
    by (cases "np_random_sample2 n m w1")
  from Suc.prems r s have rows: "rows = row # rest" by simp
  from Suc.IH [OF s] np_random_sample_length [OF r] rows show ?case by simp
qed

lemma predict_batch_result:
  "\<exists>predictions intervals w'.
     predict_batch self features w = (Inr (predictions, intervals), w') \<and>
     length predictions = len_nd features \<and> length intervals = len_nd features \<and>
     (\<forall>row \<in> set intervals. length row = 2)"
proof -
  obtain t w1 where q: "quantum_transform features w = (t, w1)"
    by (cases "quantum_transform features w")
  obtain p w2 where p: "np_random_sample (len_nd features) w1 = (p, w2)"
    by (cases "np_random_sample (len_nd features) w1")
  obtain ci w3 where c: "np_random_sample2 (len_nd features) 2 w2 = (ci, w3)"
    by (cases "np_random_sample2 (len_nd features) 2 w2")
  have "predict_batch self features w = (Inr (p, ci), w3)"
    by (simp add: predict_batch_def q p c)
  with np_random_sample_length [OF p] np_random_sample2_shape [OF c] show ?thesis by blast
qed

lemma predict_batch_interval_example:
  "predict_batch self example_features interval_world = (Inr ([0.5], [[0.9, 0.1]]), rest_world)"
  by (simp add: predict_batch_def quantum_transform_def np_random_normal_def
      np_random_sample_def example_features_def interval_world_def rest_world_def len_nd_def
      numeral_2_eq_2)

text \<open>
  Claim C4, as stated, fails: the two bounds of an interval are independent draws. On a
  one-row input whose draws are 0 (the noise), 0.5 (the prediction), 0.9 and 0.1 the
  interval is \<open>[0.9, 0.1]\<close>.
\<close>

theorem predict_batch_interval_counterexample:
  "predict_batch example_engine example_features interval_world =
     (Inr ([0.5], [[0.9, 0.1]]), rest_world) \<and>
   \<not> ([[0.9, 0.1 :: real]] ! 0) ! 0 \<le> ([[0.9, 0.1 :: real]] ! 0) ! 1"
  by (simp add: predict_batch_interval_example)

text \<open>
  Claim C4, amended. For every two-dimensional input array \<^verbatim>\<open>predict_batch\<close> returns a
  predictions array and a confidence-interval array whose lengths both equal the number of
  rows of the input, and every interval has two entries; nothing orders the two entries.
\<close>

theorem predict_batch_shape:
  "\<exists>predictions intervals w'.
     predict_batch self features w = (Inr (predictions, intervals), w') \<and>
     length predictions = len_nd features \<and> length intervals = len_nd features \<and>
     (\<forall>row \<in> set intervals. length row = 2)"
  by (rule predict_batch_result)

theorem predict_batch_shape_witness:
  "predict_batch example_engine example_features interval_world =
     (Inr ([0.5], [[0.9, 0.1]]), rest_world) \<and>
   length [0.5 :: real] = len_nd example_features \<and>
   length [[0.9, 0.1 :: real]] = len_nd example_features \<and>
   length [0.9, 0.1 :: real] = 2"
  using predict_batch_shape [of example_engine example_features interval_world]
    predict_batch_interval_example [of example_engine]
  by (simp add: len_nd_def example_features_def)

lemma train_model_result:
  "\<exists>metrics w'. train_model self data cfg w = (Inr metrics, self, w') \<and>
     map fst metrics = [''accuracy'', ''precision'', ''recall'', ''f1_score'', ''auc_roc'',
                         ''quantum_advantage'', ''computational_speedup'']"
  by (auto simp: train_model_def train_ensemble_models_def split: prod.splits)

text \<open>
  Claim C5, as stated, fails: on a fresh engine, whose model cache is empty,
  \<^verbatim>\<open>predict_batch\<close> returns predictions.
\<close>

theorem predict_batch_uncached_counterexample:
  "model_cache example_engine = [] \<and>
   fst (predict_batch example_engine example_features example_world) =
     Inr ([0.04], [[0.5, 0.7]])"
  by (simp add: predict_batch_def quantum_transform_def np_random_normal_def
      np_random_sample_def example_features_def example_world_def len_nd_def
      numeral_2_eq_2 example_engine_def QuantumEnhancedAnalytics_init_def)

text \<open>
  Claim C5, amended. \<^verbatim>\<open>predict_batch\<close> returns for every engine and input, with the same
  result whatever the model cache holds, so it never fails for want of a trained model;
  \<^verbatim>\<open>train_model\<close> succeeds and leaves the engine, and with it the model cache, as it was.
\<close>

theorem predict_batch_ignores_cache:
  "(\<exists>predictions intervals w'.
      predict_batch self features w = (Inr (predictions, intervals), w')) \<and>
   predict_batch (self\<lparr>model_cache := cache\<rparr>) features w = predict_batch self features w \<and>
   (\<exists>metrics w'. train_model self data cfg w = (Inr metrics, self, w')) \<and>
   model_cache (fst (snd (train_model self data cfg w))) = model_cache self"
proof -
  from predict_batch_result [of self features w]
  have a: "\<exists>predictions intervals w'.
      predict_batch self features w = (Inr (predictions, intervals), w')" by blast
  have b: "predict_batch (self\<lparr>model_cache := cache\<rparr>) features w = predict_batch self features w"
    by (simp add: predict_batch_def)
  from train_model_result [of self data cfg w]
  obtain metrics w' where t: "train_model self data cfg w = (Inr metrics, self, w')" by blast
  then have c: "\<exists>metrics w'. train_model self data cfg w = (Inr metrics, self, w')" by blast
  from t have d: "model_cache (fst (snd (train_model self data cfg w))) = model_cache self" by simp
  from a b c d show ?thesis by blast
qed

section \<open>Training\<close>

text \<open>
  Claim C6, as stated, fails: \<^verbatim>\<open>train_model\<close> does not look at the data set. On the frame
  with no row and no column it returns metrics.
\<close>

theorem train_model_empty_counterexample:
  "n_rows empty_frame = 0 \<and> columns empty_frame = [] \<and>
   fst (train_model example_engine empty_frame default_ModelConfiguration example_world) =
     Inr [(''accuracy'', 0.962), (''precision'', 0.897), (''recall'', 0.894),
          (''f1_score'', 0.921), (''auc_roc'', 0.93), (''quantum_advantage'', 1.15),
          (''computational_speedup'', 2.1)]"
  by (simp add: train_model_def neural_architecture_search_def np_random_randint_def
      np_random_uniform_def scale_variate_def np_random_random_def
      quantum_feature_engineering_def preprocess_data_def train_ensemble_models_def
      empty_frame_def example_world_def columns_def)

text \<open>
  Claim C6, amended. \<^verbatim>\<open>train_model\<close> succeeds on every data set, empty or without a
  numeric column included: it returns the seven training metrics and never fails.
\<close>

theorem train_model_always_succeeds:
  "\<exists>metrics w'. train_model self data cfg w = (Inr metrics, self, w') \<and>
     map fst metrics = [''accuracy'', ''precision'', ''recall'', ''f1_score'', ''auc_roc'',
                         ''quantum_advantage'', ''computational_speedup'']"
  by (rule train_model_result)

section \<open>Recovery of a batch\<close>

lemma fill_cells_full: "list_all (\<lambda>c. c \<noteq> NaN) cs \<Longrightarrow> fill_cells v cs = cs"
  by (induction cs) (auto simp: fill_cells_def)

lemma fill_times_full:
  "list_all (\<lambda>t. t \<noteq> None) ts \<Longrightarrow> map (\<lambda>c. case c of None \<Rightarrow> t | Some x \<Rightarrow> Some x) ts = ts"
  by (induction ts) auto

lemma fill_column_complete: "complete c \<Longrightarrow> fill_column v c = c"
  by (cases v; cases c) (simp_all add: fill_cells_full fill_times_full)

lemma fillna_full: "no_missing data \<Longrightarrow> fillna data val = data"
proof -
  assume a: "no_missing data"
  have "map (\<lambda>c. (fst c, case map_of val (fst c) of None \<Rightarrow> snd c
                          | Some v \<Rightarrow> fill_column v (snd c))) (series data) = series data"
  proof (rule map_idI)
    fix c assume "c \<in> set (series data)"
    then have "complete (snd c)"
      using a by (simp add: no_missing_def list_all_iff)
    then show "(fst c, case map_of val (fst c) of None \<Rightarrow> snd c
                          | Some v \<Rightarrow> fill_column v (snd c)) = c"
      by (simp add: fill_column_complete split: option.splits)
  qed
  then show ?thesis by (simp add: fillna_def)
qed

lemma recovery_idempotent_when_mean_returns:
  "no_missing data \<Longrightarrow> DataFrame_mean p data = Inr means \<Longrightarrow>
     apply_data_recovery p self data = Inr data"
  by (simp add: apply_data_recovery_def fillna_full)

lemma means_of_numeric:
  "list_all (\<lambda>c. is_float64 (snd c)) cols \<Longrightarrow>
     means_of p cols = Inr (map (\<lambda>c. (fst c, FloatFill (nanmean p (float_cells (snd c))))) cols)"
proof (induction cols)
  case Nil
  then show ?case by simp
next
  case (Cons c cols)
  then obtain cs where "snd c = Float64 cs" by (cases "snd c") auto
  with Cons show ?case by simp
qed

lemma recovery_idempotent_numeric:
  "no_missing data \<Longrightarrow> numeric_frame data \<Longrightarrow> apply_data_recovery p self data = Inr data"
  using means_of_numeric [of "series data" p]
  by (simp add: recovery_idempotent_when_mean_returns DataFrame_mean_def numeric_frame_def)

text \<open>
  A batch with a column of strings: the mean raises, and recovery with it.
\<close>

lemma column_mean_error: "column_mean p c = Inl e \<Longrightarrow> e = TypeError"
  by (cases c) (auto split: if_splits)

lemma means_of_error: "means_of p cols = Inl e \<Longrightarrow> e = TypeError"
  by (induction cols) (auto split: sum.splits dest: column_mean_error)

lemma means_of_strings:
  "(l, Object ss) \<in> set cols \<Longrightarrow> list_ex (\<lambda>s. s \<noteq> None) ss \<Longrightarrow> means_of p cols = Inl TypeError"
proof (induction cols)
  case Nil
  then show ?case by simp
next
  case (Cons c cols)
  show ?case
  proof (cases "c = (l, Object ss)")
    case True
    with Cons.prems(2) show ?thesis by simp
  next
    case False
    with Cons have rest: "means_of p cols = Inl TypeError" by simp
    show ?thesis
    proof (cases "column_mean p (snd c)")
      case (Inl e)
      with column_mean_error [OF Inl] show ?thesis by simp
    next
      case (Inr m)
      with rest show ?thesis by simp
    qed
  qed
qed

lemma received_batch_valid: "no_missing received_batch"
  by (simp add: no_missing_def received_batch_def list_all_iff)

lemma received_batch_mean: "DataFrame_mean p received_batch = Inl TypeError"
  unfolding DataFrame_mean_def
  by (rule means_of_strings [of "''categorical_feature''" "replicate 100 (Some ''A'')"])
     (simp_all add: received_batch_def list_ex_iff)

text \<open>
  Claim C8. Recovery is to be idempotent: a batch that is already valid, with no missing
  value, comes back unchanged. The code does so on batches of float columns
  (\<open>recovery_idempotent_numeric\<close>), as the analysis path does by selecting the numeric
  columns first. On the valid batches that the stream receives, which have a categorical
  column, it raises \<^verbatim>\<open>TypeError\<close> instead of returning the batch: the evaluation below.
\<close>

theorem recovery_valid_batch_raises:
  "no_missing received_batch \<and>
   apply_data_recovery exact_pandas example_processor received_batch = Inl TypeError \<and>
   process_batch_enterprise exact_pandas example_processor received_batch rest_world =
     (Inl TypeError, rest_world)"
  by (simp add: received_batch_valid apply_data_recovery_def received_batch_mean
      process_batch_enterprise_def validate_data_integrity_def np_random_random_def
      rest_world_def)









section \<open>The orchestrator's status\<close>

lemma train_model_engine:
  "train_model self data cfg w = (res, engine, w') \<Longrightarrow> engine = self \<and> (\<exists>m. res = Inr m)"
  by (auto simp: train_model_def split: prod.splits)

lemma generate_enterprise_dataset_columns:
  "generate_enterprise_dataset w = (d, w') \<Longrightarrow> columns d \<noteq> []"
  by (auto simp: generate_enterprise_dataset_def columns_def split: prod.splits)

lemma orchestrator_engine_same:
  "self\<lparr>analytics_engine := analytics_engine self\<rparr> = (self :: AIAnalyticsOrchestrator)"
  by simp

lemma run_analysis_frame:
  "fst (snd (run_comprehensive_analysis self source w)) = self"
proof (cases "system_status self = ''OPERATIONAL''")
  case False
  then show ?thesis by (simp add: run_comprehensive_analysis_def)
next
  case True
  obtain d w1 where g: "generate_enterprise_dataset w = (d, w1)"
    by (cases "generate_enterprise_dataset w")
  obtain res engine w2 where t: "train_model (analytics_engine self) d (model_config self) w1 = (res, engine, w2)"
    by (cases "train_model (analytics_engine self) d (model_config self) w1")
  from train_model_engine [OF t] have e: "engine = analytics_engine self" by simp
  show ?thesis
    by (simp add: run_comprehensive_analysis_def True g t e split: prod.splits sum.splits)
qed

lemma run_analysis_operational:
  assumes "system_status self = ''OPERATIONAL''"
  shows "\<exists>report w'. run_comprehensive_analysis self source w = (Inr report, self, w')"
proof -
  obtain d w1 where g: "generate_enterprise_dataset w = (d, w1)"
    by (cases "generate_enterprise_dataset w")
  obtain res engine w2 where t: "train_model (analytics_engine self) d (model_config self) w1 = (res, engine, w2)"
    by (cases "train_model (analytics_engine self) d (model_config self) w1")
  from train_model_engine [OF t] obtain m where e: "engine = analytics_engine self" "res = Inr m"
    by auto
  from predict_batch_result [of engine "values_df (select_dtypes_number d)" w2]
  obtain p ci w3 where pb: "predict_batch engine (values_df (select_dtypes_number d)) w2 = (Inr (p, ci), w3)"
    by blast
  from generate_enterprise_dataset_columns [OF g] detect_loop_total
  obtain recs w4 where da: "detect_anomalies engine d w3 = (Inr recs, w4)"
    unfolding detect_anomalies_def by blast
  show ?thesis
    using assms g t e pb da
    by (simp add: run_comprehensive_analysis_def split: prod.splits)
qed

lemma sdrop_sconst: "sdrop n (sconst x) = sconst x"
proof -
  have "sdrop n (replicate n x @- sconst x) = sconst x"
    by (simp add: sdrop_shift del: shift_replicate_sconst)
  then show ?thesis by simp
qed

lemma quiet_random: "np_random_random rest_world = (0, rest_world)"
  by (simp add: np_random_random_def rest_world_def)

lemma quiet_scale: "scale_variate rest_world low high 0 = low"
  by (simp add: scale_variate_def rest_world_def)

lemma quiet_uniform: "np_random_uniform low high rest_world = (low, rest_world)"
  by (simp add: np_random_uniform_def quiet_random quiet_scale)

lemma quiet_randint: "np_random_randint low high rest_world = (low, rest_world)"
  by (simp add: np_random_randint_def quiet_random)

lemma quiet_now: "datetime_now rest_world = (''2025-01-01T00:00:00'', rest_world)"
  by (simp add: datetime_now_def rest_world_def)

lemma quiet_sample: "np_random_sample n rest_world = (replicate n 0, rest_world)"
  by (simp add: np_random_sample_def rest_world_def sdrop_sconst map_replicate_const)

lemma quiet_sample2: "np_random_sample2 n m rest_world = (replicate n (replicate m 0), rest_world)"
  by (induction n) (auto simp: quiet_sample)

lemma quiet_detect_loop: "detect_loop data is acc rest_world = (Inr acc, rest_world)"
  by (induction "is") (auto simp: quiet_random)

lemma quiet_dataset_generated: "generate_enterprise_dataset rest_world = (quiet_dataset, rest_world)"
  by (simp add: generate_enterprise_dataset_def quiet_randint np_random_lognormal_def
      np_random_normal_def np_random_exponential_def np_random_poisson_def np_random_beta_def
      np_random_uniform_n_def quiet_sample quiet_scale quiet_dataset_def)

lemma quiet_train: "train_model self data cfg rest_world = (Inr quiet_metrics, self, rest_world)"
  by (simp add: train_model_def neural_architecture_search_def quiet_randint quiet_uniform
      quantum_feature_engineering_def quiet_sample2 train_ensemble_models_def quiet_metrics_def)

lemma quiet_predict:
  "predict_batch self features rest_world =
     (Inr (replicate (len_nd features) 0, replicate (len_nd features) [0, 0]), rest_world)"
  by (simp add: predict_batch_def quantum_transform_def np_random_normal_def quiet_sample
      quiet_sample2 numeral_2_eq_2)

lemma quiet_run:
  "run_comprehensive_analysis operational_orchestrator ''enterprise_data_lake'' rest_world =
     (Inr quiet_report, operational_orchestrator, rest_world)"
proof -
  have s: "system_status operational_orchestrator = ''OPERATIONAL''"
    by (simp add: operational_orchestrator_def)
  have l: "len_nd (values_df (select_dtypes_number quiet_dataset)) = 10000"
          "len_df quiet_dataset = 10000"
    by (simp_all add: len_nd_def values_df_def select_dtypes_number_def quiet_dataset_def len_df_def)
  have h: "get_system_health_metrics rest_world = (system_health quiet_report, rest_world)"
    by (simp add: get_system_health_metrics_def quiet_uniform quiet_report_def)
  have q: "dict_get quiet_metrics ''quantum_advantage'' 1 = 1.15"
    by (simp add: dict_get_def quiet_metrics_def)
  show ?thesis
    by (simp add: run_comprehensive_analysis_def s quiet_dataset_generated quiet_train
        quiet_predict l detect_anomalies_def quiet_detect_loop quiet_now h quiet_uniform q
        generate_ai_recommendations_def orchestrator_engine_same)
       (simp add: quiet_report_def)
qed

text \<open>
  Claim C10. \<^verbatim>\<open>run_comprehensive_analysis\<close> never modifies the status of the orchestrator:
  after every call, failed or not, the orchestrator is what it was before, and a call that
  returns a report was made, and ends, in status \<^verbatim>\<open>OPERATIONAL\<close>. The status is written by
  the constructor (\<^verbatim>\<open>INITIALIZING\<close>) and by \<^verbatim>\<open>initialize_system\<close> (\<^verbatim>\<open>OPERATIONAL\<close> when it
  returns true, \<^verbatim>\<open>FAILED\<close> when it returns false).
\<close>

theorem run_analysis_keeps_status:
  "system_status (fst (snd (run_comprehensive_analysis self source w))) = system_status self \<and>
   fst (snd (run_comprehensive_analysis self source w)) = self \<and>
   (\<forall>report. fst (run_comprehensive_analysis self source w) = Inr report \<longrightarrow>
      system_status self = ''OPERATIONAL'' \<and>
      system_status (fst (snd (run_comprehensive_analysis self source w))) = ''OPERATIONAL'') \<and>
   system_status AIAnalyticsOrchestrator_init = ''INITIALIZING'' \<and>
   (case initialize_system complex128 self w of
      (ok, self', w') \<Rightarrow> system_status self' = (if ok then ''OPERATIONAL'' else ''FAILED''))"
proof -
  have f: "fst (snd (run_comprehensive_analysis self source w)) = self"
    by (rule run_analysis_frame)
  have r: "\<forall>report. fst (run_comprehensive_analysis self source w) = Inr report \<longrightarrow>
      system_status self = ''OPERATIONAL''"
    by (auto simp: run_comprehensive_analysis_def)
  have c: "system_status AIAnalyticsOrchestrator_init = ''INITIALIZING''"
    by (simp add: AIAnalyticsOrchestrator_init_def)
  have i: "(case initialize_system complex128 self w of
      (ok, self', w') \<Rightarrow> system_status self' = (if ok then ''OPERATIONAL'' else ''FAILED''))"
    by (simp add: initialize_system_def split: prod.splits sum.splits)
  from f r c i show ?thesis by simp
qed


theorem run_analysis_keeps_status_witness:
  "fst (run_comprehensive_analysis operational_orchestrator ''enterprise_data_lake'' rest_world) =
     Inr quiet_report \<and>
   system_status operational_orchestrator = ''OPERATIONAL'' \<and>
   system_status (fst (snd (run_comprehensive_analysis operational_orchestrator
                              ''enterprise_data_lake'' rest_world))) = ''OPERATIONAL''"
  using run_analysis_keeps_status [of operational_orchestrator "''enterprise_data_lake''" rest_world]
    quiet_run
  by simp

end
